theory Spec2Isabelle
  imports Complex_Main
begin

section \<open>Quality classifier of the optical spectrum analyzer\<close>

text \<open>
  A shallow embedding of \<^verbatim>\<open>src/quality_classifier.py\<close>: the class
  \<^verbatim>\<open>QualityClassifier\<close> with \<^verbatim>\<open>calculate_metrics\<close>,
  \<^verbatim>\<open>_calculate_bandwidth\<close>, \<^verbatim>\<open>_detect_defects\<close> and
  \<^verbatim>\<open>_classify_grade\<close>, together with the numpy operations these call.

  Conventions of the model.
  \<^item> A one-dimensional numpy array is a list. A float64 is a \<^typ>\<open>real\<close>: rounding,
    infinities and NaN are outside the model. numpy's float division by zero gives
    \<^verbatim>\<open>inf\<close> or \<^verbatim>\<open>nan\<close> with a warning and raises nothing; no theorem
    below depends on the value of such a quotient.
  \<^item> An array index is a \<^typ>\<open>nat\<close>; every index the code computes is non-negative.
  \<^item> A raised exception is a value \<open>Inl e\<close> of the result type; the code has no
    \<^verbatim>\<open>try\<close>, so an exception of a callee is the exception of the caller.
\<close>

subsection \<open>Data model\<close>

text \<open>
  The exceptions numpy raises in the code paths below. \<open>InvalidInput\<close> is the error kind
  the specification names; the source defines no such exception and no path of the model
  constructs it.
\<close>

datatype error = ValueError | IndexError | InvalidInput

text \<open>\<^verbatim>\<open>class QualityGrade(Enum)\<close>\<close>

datatype QualityGrade = EXCELLENT | GOOD | FAIR | POOR

text \<open>
  The diagnostic notes. The source appends formatted strings; a note is modelled by its
  kind and the values formatted into it:
  \<^item> \<open>NoteVisibleNotCovered\<close>: \<^verbatim>\<open>"Visible range not covered in spectrum"\<close>
  \<^item> \<open>NoteDetected n\<close>: \<^verbatim>\<open>f"Detected {defect_count} potential defects"\<close>
  \<^item> \<open>NoteBelowThreshold a v\<close>:
    \<^verbatim>\<open>f"Below transmission threshold ({avg_visible:.1f}% < {self.visible_threshold}%)"\<close>
  \<^item> \<open>NoteFailedDefects\<close>: \<^verbatim>\<open>"Failed due to detected defects"\<close>
\<close>

datatype diag_note =
    NoteVisibleNotCovered
  | NoteDetected nat
  | NoteBelowThreshold real real
  | NoteFailedDefects

text \<open>
  \<^verbatim>\<open>@dataclass class QualityMetrics\<close>. The field \<^verbatim>\<open>notes\<close> is named
  \<open>diag_notes\<close> (\<open>notes\<close> is a keyword of Isabelle).
\<close>

record QualityMetrics =
  sample_id :: string
  material_type :: string
  peak_transmission :: real
  avg_transmission_visible :: real
  avg_transmission_full :: real
  transmission_bandwidth_nm :: real
  uniformity_score :: real
  defect_count :: nat
  defect_locations :: "real list"
  quality_grade :: QualityGrade
  pass_qc :: bool
  diag_notes :: "diag_note list"

text \<open>The instance attributes set by \<^verbatim>\<open>QualityClassifier.__init__\<close>.\<close>

record QualityClassifier =
  visible_threshold :: real
  bandwidth_threshold :: real

text \<open>The class constants.\<close>

definition VISIBLE_RANGE :: "real \<times> real" where
  "VISIBLE_RANGE = (400, 700)"

fun GRADE_THRESHOLDS :: "QualityGrade \<Rightarrow> real" where
  "GRADE_THRESHOLDS EXCELLENT = 90"
| "GRADE_THRESHOLDS GOOD = 80"
| "GRADE_THRESHOLDS FAIR = 70"
| "GRADE_THRESHOLDS POOR = 0"

definition DEFECT_DROP_THRESHOLD :: real where
  "DEFECT_DROP_THRESHOLD = 0.10"

definition DEFECT_GRADIENT_THRESHOLD :: real where
  "DEFECT_GRADIENT_THRESHOLD = 0.5"

subsection \<open>Grade classification\<close>

text \<open>\<^verbatim>\<open>QualityClassifier._classify_grade\<close>, lines 264-273.\<close>

definition classify_grade :: "real \<Rightarrow> QualityGrade" where
  "classify_grade avg_transmission =
     (if avg_transmission \<ge> GRADE_THRESHOLDS EXCELLENT then EXCELLENT
      else if avg_transmission \<ge> GRADE_THRESHOLDS GOOD then GOOD
      else if avg_transmission \<ge> GRADE_THRESHOLDS FAIR then FAIR
      else POOR)"

text \<open>
  The total order on grades that the specification states,
  Poor < Fair < Good < Excellent, as a rank. The enum of the source carries no order.
\<close>

fun grade_rank :: "QualityGrade \<Rightarrow> nat" where
  "grade_rank POOR = 0"
| "grade_rank FAIR = 1"
| "grade_rank GOOD = 2"
| "grade_rank EXCELLENT = 3"

subsection \<open>numpy operations\<close>

text \<open>
  \<^verbatim>\<open>a[i]\<close> with an integer index \<open>i \<ge> 0\<close> on an array or a Python list:
  IndexError when out of range.
\<close>

definition getitem :: "'a list \<Rightarrow> nat \<Rightarrow> error + 'a" where
  "getitem xs i = (if i < length xs then Inr (xs ! i) else Inl IndexError)"

text \<open>
  \<^verbatim>\<open>np.max\<close> and \<^verbatim>\<open>np.argmax\<close>: ValueError on an empty array;
  \<^verbatim>\<open>argmax\<close> gives the first index of the maximum.
\<close>

definition np_max :: "real list \<Rightarrow> error + real" where
  "np_max xs = (if xs = [] then Inl ValueError else Inr (fold max (tl xs) (hd xs)))"

definition np_argmax :: "real list \<Rightarrow> error + nat" where
  "np_argmax xs =
     (if xs = [] then Inl ValueError
      else Inr (hd (filter (\<lambda>i. xs ! i = fold max (tl xs) (hd xs)) [0..<length xs])))"

text \<open>
  \<^verbatim>\<open>np.mean\<close> and \<^verbatim>\<open>np.std\<close> (population standard deviation). On an empty
  array numpy returns \<^verbatim>\<open>nan\<close> with a warning and raises nothing; the model's value
  there is \<open>0\<close> and \<open>calculate_metrics\<close> never takes the mean of an empty array.
\<close>

definition np_mean :: "real list \<Rightarrow> real" where
  "np_mean xs = sum_list xs / real (length xs)"

definition np_std :: "real list \<Rightarrow> real" where
  "np_std xs = sqrt (np_mean (map (\<lambda>x. \<bar>x - np_mean xs\<bar> ^ 2) xs))"

text \<open>\<^verbatim>\<open>mask.any()\<close> and \<^verbatim>\<open>np.where(mask)[0]\<close> on a boolean array.\<close>

definition mask_any :: "bool list \<Rightarrow> bool" where
  "mask_any bmask = list_ex (\<lambda>b. b) bmask"

definition np_where :: "bool list \<Rightarrow> nat list" where
  "np_where bmask = filter (\<lambda>i. bmask ! i) [0..<length bmask]"

text \<open>
  \<^verbatim>\<open>a[mask]\<close> with a boolean array: IndexError when the mask's length differs from
  the array's ("boolean index did not match indexed array along axis 0").
\<close>

definition np_select :: "'a list \<Rightarrow> bool list \<Rightarrow> error + 'a list" where
  "np_select xs bmask =
     (if length bmask \<noteq> length xs then Inl IndexError
      else Inr (map fst (filter snd (zip xs bmask))))"

text \<open>
  \<^verbatim>\<open>a - b\<close> on one-dimensional arrays, with broadcasting: equal lengths, or one
  operand of length 1; otherwise ValueError ("operands could not be broadcast together").
\<close>

definition np_sub :: "real list \<Rightarrow> real list \<Rightarrow> error + real list" where
  "np_sub xs ys =
     (if length xs = length ys then Inr (map (\<lambda>(x, y). x - y) (zip xs ys))
      else if length xs = 1 then Inr (map (\<lambda>y. xs ! 0 - y) ys)
      else if length ys = 1 then Inr (map (\<lambda>x. x - ys ! 0) xs)
      else Inl ValueError)"

text \<open>\<^verbatim>\<open>np.diff\<close> of a one-dimensional array.\<close>

definition np_diff :: "real list \<Rightarrow> real list" where
  "np_diff xs = map (\<lambda>i. xs ! (i + 1) - xs ! i) [0..<length xs - 1]"

text \<open>
  \<^verbatim>\<open>np.gradient(f, x)\<close> with the coordinates \<open>x\<close> a one-dimensional array and
  \<^verbatim>\<open>edge_order=1\<close>, following numpy's implementation in the order of its checks:
  \<^item> ValueError when the lengths differ ("when 1d, distances must match the length of
    the corresponding dimension");
  \<^item> \<^verbatim>\<open>diffx = np.diff(x)\<close>, then \<^verbatim>\<open>(diffx == diffx[0]).all()\<close>: IndexError
    when \<open>diffx\<close> is empty, that is for fewer than two points;
  \<^item> ValueError when \<open>f\<close> has fewer than two elements ("Shape of array too small"),
    unreachable after the previous check;
  \<^item> constant spacing \<open>dx\<close>: central differences \<open>(f[i+1] - f[i-1]) / (2 dx)\<close> inside;
    otherwise the second-order formula \<open>a f[i-1] + b f[i] + c f[i+1]\<close> for uneven spacing;
  \<^item> one-sided differences at both ends.
\<close>

definition np_gradient :: "real list \<Rightarrow> real list \<Rightarrow> error + real list" where
  "np_gradient f x =
     (if length x \<noteq> length f then Inl ValueError
      else let diffx = np_diff x; n = length f in
        if diffx = [] then Inl IndexError
        else if n < 2 then Inl ValueError
        else if list_all (\<lambda>d. d = diffx ! 0) diffx then
          (let dx = diffx ! 0 in
           Inr (map (\<lambda>i. if i = 0 then (f ! 1 - f ! 0) / dx
                          else if i = n - 1 then (f ! (n - 1) - f ! (n - 2)) / dx
                          else (f ! (i + 1) - f ! (i - 1)) / (2 * dx)) [0..<n]))
        else
          Inr (map (\<lambda>i. if i = 0 then (f ! 1 - f ! 0) / diffx ! 0
                         else if i = n - 1 then (f ! (n - 1) - f ! (n - 2)) / last diffx
                         else (let dx1 = diffx ! (i - 1); dx2 = diffx ! i;
                                   a = - dx2 / (dx1 * (dx1 + dx2));
                                   b = (dx2 - dx1) / (dx1 * dx2);
                                   c = dx1 / (dx2 * (dx1 + dx2))
                               in a * f ! (i - 1) + b * f ! i + c * f ! (i + 1))) [0..<n]))"

text \<open>
  \<^verbatim>\<open>np.convolve(a, v, mode='same')\<close>. numpy swaps the operands when \<open>v\<close> is the
  longer one, raises ValueError when one is empty, and returns the \<open>max (len a) (len v)\<close>
  central entries of the full convolution, starting at entry \<open>(n - 1) - n div 2\<close> for \<open>n\<close> the
  length of the shorter operand.
\<close>

definition convolve_full :: "real list \<Rightarrow> real list \<Rightarrow> nat \<Rightarrow> real" where
  "convolve_full a v j =
     sum_list (map (\<lambda>k. if k \<le> j \<and> j - k < length v then a ! k * v ! (j - k) else 0)
                   [0..<length a])"

definition np_convolve_same :: "real list \<Rightarrow> real list \<Rightarrow> error + real list" where
  "np_convolve_same a v =
     (let (a1, v1) = (if length v > length a then (v, a) else (a, v)) in
      if a1 = [] \<or> v1 = [] then Inl ValueError
      else let n = length v1; off = (n - 1) - n div 2 in
        Inr (map (\<lambda>i. convolve_full a1 v1 (i + off)) [0..<length a1]))"

subsection \<open>Transmission bandwidth\<close>

text \<open>\<^verbatim>\<open>QualityClassifier._calculate_bandwidth\<close>, lines 184-202.\<close>

definition calculate_bandwidth :: "real list \<Rightarrow> real list \<Rightarrow> real \<Rightarrow> error + real" where
  "calculate_bandwidth wavelength transmission threshold =
     (let above_threshold = map (\<lambda>x. x \<ge> threshold) transmission in
      if \<not> mask_any above_threshold then Inr 0
      else let indices = np_where above_threshold in
        if length indices = 0 then Inr 0
        else (case getitem wavelength (last indices) of
                Inl e \<Rightarrow> Inl e
              | Inr hi \<Rightarrow>
                  (case getitem wavelength (hd indices) of
                     Inl e \<Rightarrow> Inl e
                   | Inr lo \<Rightarrow> Inr (hi - lo))))"

subsection \<open>Defect detection\<close>

text \<open>
  \<^verbatim>\<open>QualityClassifier._detect_defects\<close>, lines 204-262, in the order of the source.
  The list \<^verbatim>\<open>defect_locations\<close> of the source is the argument \<open>locations\<close>.
  Lines 216-225: the gradient and its smoothing. The smoothing is skipped when the window
  is at most 1.
\<close>

definition smooth_gradient :: "real list \<Rightarrow> error + real list" where
  "smooth_gradient gradient =
     (let window = min 5 (length gradient div 10) in
      if window > 1 then np_convolve_same gradient (replicate window (1 / real window))
      else Inr gradient)"

text \<open>Line 228: the indices of the sharp drops.\<close>

definition sharp_drops_of :: "real list \<Rightarrow> nat list" where
  "sharp_drops_of gradient_smooth =
     np_where (map (\<lambda>g. g < - DEFECT_GRADIENT_THRESHOLD) gradient_smooth)"

text \<open>
  Lines 231-241: the clustering loop over \<^verbatim>\<open>range(1, len(sharp_drops))\<close>. The first
  argument is \<^verbatim>\<open>sharp_drops[i-1]\<close>, the second the entries from \<^verbatim>\<open>sharp_drops[i]\<close>
  on; the last equation is the \<^verbatim>\<open>clusters.append(current_cluster)\<close> after the loop.
\<close>

fun cluster_loop :: "nat \<Rightarrow> nat list \<Rightarrow> nat list \<Rightarrow> nat list list \<Rightarrow> nat list list" where
  "cluster_loop prev [] current_cluster clusters = clusters @ [current_cluster]"
| "cluster_loop prev (d # ds) current_cluster clusters =
     (if int d - int prev < 10 then cluster_loop d ds (current_cluster @ [d]) clusters
      else cluster_loop d ds [d] (clusters @ [current_cluster]))"

definition cluster_drops :: "nat list \<Rightarrow> nat list list" where
  "cluster_drops sharp_drops =
     (case sharp_drops of [] \<Rightarrow> [] | d # ds \<Rightarrow> cluster_loop d ds [d] [])"

text \<open>Lines 243-246: the wavelength at the middle index of each cluster.\<close>

fun center_loop :: "real list \<Rightarrow> nat list list \<Rightarrow> real list \<Rightarrow> error + real list" where
  "center_loop wavelength [] locations = Inr locations"
| "center_loop wavelength (cluster # clusters) locations =
     (case getitem cluster (length cluster div 2) of
        Inl e \<Rightarrow> Inl e
      | Inr center_idx \<Rightarrow>
          (case getitem wavelength center_idx of
             Inl e \<Rightarrow> Inl e
           | Inr wl \<Rightarrow> center_loop wavelength clusters (locations @ [wl])))"

text \<open>The gradient-cluster pass, lines 214-246: the list \<^verbatim>\<open>defect_locations\<close> at line 247.\<close>

definition gradient_pass :: "real list \<Rightarrow> real list \<Rightarrow> error + real list" where
  "gradient_pass wavelength transmission =
     (case np_gradient transmission wavelength of
        Inl e \<Rightarrow> Inl e
      | Inr gradient \<Rightarrow>
          (case smooth_gradient gradient of
             Inl e \<Rightarrow> Inl e
           | Inr gradient_smooth \<Rightarrow>
               center_loop wavelength (cluster_drops (sharp_drops_of gradient_smooth)) []))"

text \<open>
  Lines 250-253: the indices whose transmission lies more than 10 below the moving
  average over 20 samples.
\<close>

definition absorption_bands_of :: "real list \<Rightarrow> error + nat list" where
  "absorption_bands_of transmission =
     (case np_convolve_same transmission (replicate 20 (1 / 20)) of
        Inl e \<Rightarrow> Inl e
      | Inr local_mean \<Rightarrow>
          (case np_sub transmission local_mean of
             Inl e \<Rightarrow> Inl e
           | Inr deviation \<Rightarrow>
               Inr (np_where (map (\<lambda>d. d < - DEFECT_DROP_THRESHOLD * 100) deviation))))"

text \<open>
  Lines 256-260: the loop over \<^verbatim>\<open>absorption_bands\<close>. The list tested by
  \<^verbatim>\<open>any(abs(wl - loc) < 50 for loc in defect_locations)\<close> is the list the loop appends to.
\<close>

fun add_unique :: "real list \<Rightarrow> nat list \<Rightarrow> real list \<Rightarrow> error + real list" where
  "add_unique wavelength [] locations = Inr locations"
| "add_unique wavelength (idx # rest) locations =
     (case getitem wavelength idx of
        Inl e \<Rightarrow> Inl e
      | Inr wl \<Rightarrow>
          (if \<not> list_ex (\<lambda>loc. \<bar>wl - loc\<bar> < 50) locations
           then add_unique wavelength rest (locations @ [wl])
           else add_unique wavelength rest locations))"

definition detect_defects :: "real list \<Rightarrow> real list \<Rightarrow> error + real list" where
  "detect_defects wavelength transmission =
     (case gradient_pass wavelength transmission of
        Inl e \<Rightarrow> Inl e
      | Inr locations \<Rightarrow>
          (case absorption_bands_of transmission of
             Inl e \<Rightarrow> Inl e
           | Inr absorption_bands \<Rightarrow>
               (case add_unique wavelength absorption_bands locations of
                  Inl e \<Rightarrow> Inl e
                | Inr locs \<Rightarrow> Inr (sort locs))))"

subsection \<open>Metrics\<close>

text \<open>
  \<^verbatim>\<open>QualityClassifier.calculate_metrics\<close>, lines 100-182, block by block.
  Lines 126-127: the visible mask.
\<close>

definition visible_mask_of :: "real list \<Rightarrow> bool list" where
  "visible_mask_of wavelength_nm =
     map (\<lambda>x. x \<ge> fst VISIBLE_RANGE \<and> x \<le> snd VISIBLE_RANGE) wavelength_nm"

text \<open>Lines 128-132: the visible average and the note of the fallback.\<close>

definition visible_average :: "real list \<Rightarrow> real list \<Rightarrow> error + real \<times> diag_note list" where
  "visible_average wavelength_nm transmission_pct =
     (let visible_mask = visible_mask_of wavelength_nm in
      if mask_any visible_mask then
        (case np_select transmission_pct visible_mask of
           Inl e \<Rightarrow> Inl e
         | Inr visible_trans \<Rightarrow> Inr (np_mean visible_trans, []))
      else Inr (np_mean transmission_pct, [NoteVisibleNotCovered]))"

text \<open>Lines 143-148: the uniformity score.\<close>

definition uniformity_of :: "real list \<Rightarrow> real list \<Rightarrow> error + real" where
  "uniformity_of wavelength_nm transmission_pct =
     (let visible_mask = visible_mask_of wavelength_nm in
      if mask_any visible_mask then
        (case np_select transmission_pct visible_mask of
           Inl e \<Rightarrow> Inl e
         | Inr visible_trans \<Rightarrow>
             (let cv = (if np_mean visible_trans > 0
                        then np_std visible_trans / np_mean visible_trans else 1)
              in Inr (max 0 (1 - cv) * 100)))
      else Inr 0)"

text \<open>Lines 152-182: the count, the grade, the verdict, the notes and the record.\<close>

definition assemble_metrics ::
  "QualityClassifier \<Rightarrow> string \<Rightarrow> string \<Rightarrow> real \<Rightarrow> real \<Rightarrow> diag_note list \<Rightarrow> real \<Rightarrow> real \<Rightarrow>
   real \<Rightarrow> real list \<Rightarrow> QualityMetrics" where
  "assemble_metrics self sid mat peak avg_visible notes0 avg_full bandwidth uniformity_val locs =
     (let defect_cnt = length locs;
          notes1 = notes0 @ (if defect_cnt > 0 then [NoteDetected defect_cnt] else []);
          grade = classify_grade avg_visible;
          pass = (avg_visible \<ge> visible_threshold self \<and> defect_cnt = 0);
          notes2 = notes1 @
            (if \<not> pass then
               (if avg_visible < visible_threshold self
                then [NoteBelowThreshold avg_visible (visible_threshold self)] else []) @
               (if defect_cnt > 0 then [NoteFailedDefects] else [])
             else [])
      in \<lparr> sample_id = sid, material_type = mat, peak_transmission = peak,
           avg_transmission_visible = avg_visible, avg_transmission_full = avg_full,
           transmission_bandwidth_nm = bandwidth, uniformity_score = uniformity_val,
           defect_count = defect_cnt, defect_locations = locs, quality_grade = grade,
           pass_qc = pass, diag_notes = notes2 \<rparr>)"

definition calculate_metrics ::
  "QualityClassifier \<Rightarrow> real list \<Rightarrow> real list \<Rightarrow> string \<Rightarrow> string \<Rightarrow> error + QualityMetrics" where
  "calculate_metrics self wavelength_nm transmission_pct sid mat =
     (case np_max transmission_pct of
        Inl e \<Rightarrow> Inl e
      | Inr peak \<Rightarrow>
     (case np_argmax transmission_pct of
        Inl e \<Rightarrow> Inl e
      | Inr peak_idx \<Rightarrow>
     (case getitem wavelength_nm peak_idx of
        Inl e \<Rightarrow> Inl e
      | Inr peak_wavelength \<Rightarrow>
     (case visible_average wavelength_nm transmission_pct of
        Inl e \<Rightarrow> Inl e
      | Inr (avg_visible, notes0) \<Rightarrow>
     (let avg_full = np_mean transmission_pct in
     (case calculate_bandwidth wavelength_nm transmission_pct (bandwidth_threshold self) of
        Inl e \<Rightarrow> Inl e
      | Inr bandwidth \<Rightarrow>
     (case uniformity_of wavelength_nm transmission_pct of
        Inl e \<Rightarrow> Inl e
      | Inr uniformity_val \<Rightarrow>
     (case detect_defects wavelength_nm transmission_pct of
        Inl e \<Rightarrow> Inl e
      | Inr locs \<Rightarrow>
          Inr (assemble_metrics self sid mat peak avg_visible notes0 avg_full bandwidth
                 uniformity_val locs)))))))))"

subsection \<open>Sample spectra\<close>

text \<open>
  Concrete spectra on which the definitions above are evaluated below. The first has
  seven points, 400 to 700 nm in steps of 50, with one sample at 40 percent.
\<close>

definition short_wavelength :: "real list" where
  "short_wavelength = [400, 450, 500, 550, 600, 650, 700]"

definition short_transmission :: "real list" where
  "short_transmission = [95, 95, 95, 40, 95, 95, 95]"

text \<open>
  Twenty points, 400 to 1160 nm in steps of 40, at 90 percent with a dip to 70 percent at
  the two neighbouring samples 760 nm and 800 nm.
\<close>

definition dip_wavelength :: "real list" where
  "dip_wavelength = [400, 440, 480, 520, 560, 600, 640, 680, 720, 760,
                     800, 840, 880, 920, 960, 1000, 1040, 1080, 1120, 1160]"

definition dip_transmission :: "real list" where
  "dip_transmission = [90, 90, 90, 90, 90, 90, 90, 90, 90, 70,
                       70, 90, 90, 90, 90, 90, 90, 90, 90, 90]"

text \<open>
  The same wavelengths, with the dip over the three neighbouring samples 760 nm, 800 nm
  and 840 nm.
\<close>

definition dip3_transmission :: "real list" where
  "dip3_transmission = [90, 90, 90, 90, 90, 90, 90, 90, 90, 70,
                        70, 70, 90, 90, 90, 90, 90, 90, 90, 90]"

text \<open>
  The same wavelengths, with the eight visible samples alternating between 60 and 100
  percent and 80 percent beyond: visible mean 80, standard deviation 20.
\<close>

definition band_transmission :: "real list" where
  "band_transmission = [60, 100, 60, 100, 60, 100, 60, 100, 80, 80,
                        80, 80, 80, 80, 80, 80, 80, 80, 80, 80]"

text \<open>
  Twenty points beyond the visible range, 800 to 1560 nm in steps of 40, rising from 76 to
  95 percent.
\<close>

definition nir_wavelength :: "real list" where
  "nir_wavelength = [800, 840, 880, 920, 960, 1000, 1040, 1080, 1120, 1160,
                     1200, 1240, 1280, 1320, 1360, 1400, 1440, 1480, 1520, 1560]"

definition nir_transmission :: "real list" where
  "nir_transmission = [76, 77, 78, 79, 80, 81, 82, 83, 84, 85,
                       86, 87, 88, 89, 90, 91, 92, 93, 94, 95]"

text \<open>The classifier with the default thresholds of \<^verbatim>\<open>__init__\<close>.\<close>

definition default_classifier :: QualityClassifier where
  "default_classifier = \<lparr> visible_threshold = 80.0, bandwidth_threshold = 80.0 \<rparr>"

text \<open>
  The records \<open>calculate_metrics\<close> returns for three of the 20-point samples under the
  default thresholds (lemmas \<open>dip_metrics\<close>, \<open>nir_metrics\<close> and \<open>band_metrics\<close> below).
\<close>

definition dip_metrics_record :: QualityMetrics where
  "dip_metrics_record =
     \<lparr> sample_id = ''unknown'', material_type = ''unknown'', peak_transmission = 90,
       avg_transmission_visible = 90, avg_transmission_full = 88,
       transmission_bandwidth_nm = 760, uniformity_score = 100, defect_count = 1,
       defect_locations = [760], quality_grade = EXCELLENT, pass_qc = False,
       diag_notes = [NoteDetected 1, NoteFailedDefects] \<rparr>"

definition nir_metrics_record :: QualityMetrics where
  "nir_metrics_record =
     \<lparr> sample_id = ''unknown'', material_type = ''unknown'', peak_transmission = 95,
       avg_transmission_visible = 171 / 2, avg_transmission_full = 171 / 2,
       transmission_bandwidth_nm = 600, uniformity_score = 0, defect_count = 0,
       defect_locations = [], quality_grade = GOOD, pass_qc = True,
       diag_notes = [NoteVisibleNotCovered] \<rparr>"

definition band_metrics_record :: QualityMetrics where
  "band_metrics_record =
     \<lparr> sample_id = ''unknown'', material_type = ''unknown'', peak_transmission = 100,
       avg_transmission_visible = 80, avg_transmission_full = 80,
       transmission_bandwidth_nm = 720, uniformity_score = 75, defect_count = 0,
       defect_locations = [], quality_grade = GOOD, pass_qc = True,
       diag_notes = [] \<rparr>"

section \<open>Properties\<close>

subsection \<open>Grade classification\<close>

text \<open>
  Claim C7. Grade classification is monotonic: for average visible transmissions
  \<open>a \<le> b\<close> the grade of \<open>b\<close> is at least the grade of \<open>a\<close> in the order
  Poor < Fair < Good < Excellent.
\<close>

theorem classify_grade_monotonic:
  "a \<le> b \<Longrightarrow> grade_rank (classify_grade a) \<le> grade_rank (classify_grade b)"
  by (simp add: classify_grade_def)

theorem classify_grade_monotonic_witness:
  "(85::real) \<le> 95 \<and> grade_rank (classify_grade 85) \<le> grade_rank (classify_grade 95)
   \<and> classify_grade 85 = GOOD \<and> classify_grade 95 = EXCELLENT"
  using classify_grade_monotonic [of 85 95] by (simp add: classify_grade_def)

subsection \<open>Bandwidth\<close>

lemma hd_filter_upt:
  assumes "i < n" "P i" "\<forall>j<i. \<not> P j"
  shows "hd (filter P [0..<n]) = i"
proof -
  have "[0..<n] = [0..<i] @ [i..<n]"
    using assms(1) upt_add_eq_append[of 0 i "n - i"] by simp
  then have "[0..<n] = [0..<i] @ i # [Suc i..<n]"
    using assms(1) by (simp add: upt_conv_Cons)
  moreover have "filter P [0..<i] = []"
    using assms(3) by (auto simp: filter_empty_conv)
  ultimately show ?thesis
    using assms(2) by simp
qed

lemma last_filter_upt:
  assumes "k < n" "P k" "\<forall>j. k < j \<and> j < n \<longrightarrow> \<not> P j"
  shows "last (filter P [0..<n]) = k"
proof -
  have "[0..<n] = [0..<k] @ [k..<n]"
    using assms(1) upt_add_eq_append[of 0 k "n - k"] by simp
  then have "[0..<n] = [0..<k] @ k # [Suc k..<n]"
    using assms(1) by (simp add: upt_conv_Cons)
  moreover have "filter P [Suc k..<n] = []"
    using assms(3) by (auto simp: filter_empty_conv)
  ultimately show ?thesis
    using assms(2) by simp
qed

text \<open>
  Claim C5. For wavelength and transmission arrays of one length, the bandwidth is the
  wavelength at the last index whose transmission reaches the threshold minus the
  wavelength at the first such index, whatever lies between them, and \<open>0\<close> when no point
  reaches the threshold.
\<close>

theorem calculate_bandwidth_first_to_last:
  assumes "length w = length t"
  shows "((\<forall>i<length t. t ! i < thr) \<longrightarrow> calculate_bandwidth w t thr = Inr 0) \<and>
         (\<forall>i k. i < length t \<and> k < length t \<and> thr \<le> t ! i \<and> thr \<le> t ! k \<and>
                (\<forall>j<i. t ! j < thr) \<and> (\<forall>j. k < j \<and> j < length t \<longrightarrow> t ! j < thr)
                \<longrightarrow> calculate_bandwidth w t thr = Inr (w ! k - w ! i))"
proof (intro conjI allI impI)
  assume a: "\<forall>i<length t. t ! i < thr"
  have "\<not> mask_any (map (\<lambda>x. thr \<le> x) t)"
    using a by (fastforce simp: mask_any_def list_ex_iff in_set_conv_nth)
  then show "calculate_bandwidth w t thr = Inr 0"
    by (simp add: calculate_bandwidth_def)
next
  fix i k
  assume h: "i < length t \<and> k < length t \<and> thr \<le> t ! i \<and> thr \<le> t ! k \<and>
             (\<forall>j<i. t ! j < thr) \<and> (\<forall>j. k < j \<and> j < length t \<longrightarrow> t ! j < thr)"
  let ?P = "\<lambda>j. map (\<lambda>x. thr \<le> x) t ! j"
  have any: "mask_any (map (\<lambda>x. thr \<le> x) t)"
    using h by (auto simp: mask_any_def list_ex_iff intro!: bexI[of _ "t ! i"])
  have first: "hd (filter ?P [0..<length t]) = i"
    using h by (intro hd_filter_upt) auto
  have final: "last (filter ?P [0..<length t]) = k"
    using h by (intro last_filter_upt) auto
  have ne: "filter ?P [0..<length t] \<noteq> []"
    using h by (auto simp: filter_empty_conv)
  show "calculate_bandwidth w t thr = Inr (w ! k - w ! i)"
    using any first final ne h assms
    by (simp add: calculate_bandwidth_def np_where_def getitem_def Let_def)
qed

text \<open>
  The witness: three points with a gap in the middle give the whole span 600 - 400, and
  two points below the threshold give 0.
\<close>

theorem calculate_bandwidth_first_to_last_witness:
  "length [400, 500, 600 :: real] = length [90, 10, 90 :: real] \<and>
   calculate_bandwidth [400, 500, 600] [90, 10, 90] 80 = Inr 200 \<and>
   length [400, 500 :: real] = length [10, 20 :: real] \<and>
   calculate_bandwidth [400, 500] [10, 20] 80 = Inr 0"
proof -
  have len3: "length [400, 500, 600 :: real] = length [90, 10, 90 :: real]"
    by simp
  have len2: "length [400, 500 :: real] = length [10, 20 :: real]"
    by simp
  have span: "(0::nat) < length [90, 10, 90 :: real] \<and> 2 < length [90, 10, 90 :: real] \<and>
      (80::real) \<le> [90, 10, 90] ! 0 \<and> (80::real) \<le> [90, 10, 90] ! 2 \<and>
      (\<forall>j<0::nat. [90, 10, 90] ! j < (80::real)) \<and>
      (\<forall>j. 2 < j \<and> j < length [90, 10, 90 :: real] \<longrightarrow> [90, 10, 90] ! j < (80::real))"
    by auto
  have below: "\<forall>i<length [10, 20 :: real]. [10, 20] ! i < (80::real)"
    by (auto simp: less_Suc_eq numeral_2_eq_2)
  have "calculate_bandwidth [400, 500, 600] [90, 10, 90] 80
          = Inr ([400, 500, 600] ! 2 - [400, 500, 600] ! 0)"
    using calculate_bandwidth_first_to_last [OF len3, of 80, THEN conjunct2, rule_format, OF span] .
  moreover have "calculate_bandwidth [400, 500] [10, 20] 80 = Inr 0"
    using calculate_bandwidth_first_to_last [OF len2, of 80, THEN conjunct1, THEN mp, OF below] .
  ultimately show ?thesis
    by simp
qed

subsection \<open>Defect detection\<close>



lemma detect_defects_Inr:
  assumes "detect_defects w t = Inr ds"
  shows "\<exists>g bands L. gradient_pass w t = Inr g \<and> absorption_bands_of t = Inr bands \<and>
           add_unique w bands g = Inr L \<and> ds = sort L"
  using assms unfolding detect_defects_def by (auto split: sum.splits)



lemma cluster_loop_inv:
  assumes "cur \<noteq> []" "set cur \<subseteq> S" "set ds \<subseteq> S" "\<forall>c\<in>set cls. c \<noteq> [] \<and> set c \<subseteq> S"
  shows "\<forall>c\<in>set (cluster_loop prev ds cur cls). c \<noteq> [] \<and> set c \<subseteq> S"
  using assms
proof (induction ds arbitrary: prev cur cls)
  case Nil
  then show ?case by auto
next
  case (Cons d ds)
  show ?case
  proof (cases "int d - int prev < 10")
    case True
    have "\<forall>c\<in>set (cluster_loop d ds (cur @ [d]) cls). c \<noteq> [] \<and> set c \<subseteq> S"
      using Cons.prems by (intro Cons.IH) auto
    then show ?thesis using True by simp
  next
    case False
    have "\<forall>c\<in>set (cluster_loop d ds [d] (cls @ [cur])). c \<noteq> [] \<and> set c \<subseteq> S"
      using Cons.prems by (intro Cons.IH) auto
    then show ?thesis using False by simp
  qed
qed

lemma cluster_drops_inv:
  "\<forall>c\<in>set (cluster_drops sd). c \<noteq> [] \<and> set c \<subseteq> set sd"
proof (cases sd)
  case Nil
  then show ?thesis by (simp add: cluster_drops_def)
next
  case (Cons d ds)
  have "\<forall>c\<in>set (cluster_loop d ds [d] []). c \<noteq> [] \<and> set c \<subseteq> set sd"
    using Cons by (intro cluster_loop_inv) auto
  then show ?thesis using Cons by (simp add: cluster_drops_def)
qed

lemma np_where_bound: "i \<in> set (np_where bs) \<Longrightarrow> i < length bs"
  by (simp add: np_where_def)

lemma center_loop_total:
  assumes "\<forall>c\<in>set cs. c \<noteq> [] \<and> (\<forall>i\<in>set c. i < length w)"
  shows "\<exists>r. center_loop w cs acc = Inr r"
  using assms
proof (induction cs arbitrary: acc)
  case Nil
  then show ?case by simp
next
  case (Cons c cs)
  have ne: "c \<noteq> []" and bd: "\<forall>i\<in>set c. i < length w"
    using Cons.prems by auto
  have lt: "length c div 2 < length c"
    using ne by (simp add: div_less_dividend)
  then have "c ! (length c div 2) < length w"
    using bd nth_mem by blast
  then show ?case
    using lt Cons.IH Cons.prems by (simp add: getitem_def)
qed

lemma add_unique_total:
  assumes "\<forall>i\<in>set bs. i < length w"
  shows "\<exists>r. add_unique w bs acc = Inr r"
  using assms
proof (induction bs arbitrary: acc)
  case Nil
  then show ?case by simp
next
  case (Cons b bs)
  then show ?case by (simp add: getitem_def)
qed

lemma np_gradient_total:
  assumes "length x = length f" "2 \<le> length f"
  shows "\<exists>g. np_gradient f x = Inr g \<and> length g = length f"
proof -
  have "np_diff x \<noteq> []"
    using assms by (simp add: np_diff_def)
  then show ?thesis
    using assms by (simp add: np_gradient_def Let_def)
qed

lemma np_gradient_Inr_length:
  "np_gradient f x = Inr g \<Longrightarrow> length x = length f \<and> length g = length f"
  by (auto simp: np_gradient_def Let_def split: if_splits)

lemma np_convolve_same_length:
  assumes "v \<noteq> []" "length v \<le> length a"
  shows "\<exists>r. np_convolve_same a v = Inr r \<and> length r = length a"
  using assms by (auto simp: np_convolve_same_def Let_def)

lemma smooth_gradient_total:
  "\<exists>r. smooth_gradient g = Inr r \<and> length r = length g"
proof (cases "1 < min 5 (length g div 10)")
  case True
  let ?w = "min 5 (length g div 10)"
  have "replicate ?w (1 / real ?w) \<noteq> []" using True by auto
  moreover have "length (replicate ?w (1 / real ?w)) \<le> length g"
    by (simp add: min_def) linarith
  ultimately show ?thesis
    using np_convolve_same_length[of "replicate ?w (1 / real ?w)" g] True
    by (simp add: smooth_gradient_def Let_def)
next
  case False
  then show ?thesis by (simp add: smooth_gradient_def Let_def)
qed

lemma gradient_pass_total:
  assumes "length w = length t" "2 \<le> length t"
  shows "\<exists>g. gradient_pass w t = Inr g"
proof -
  obtain gr where gr: "np_gradient t w = Inr gr" "length gr = length t"
    using np_gradient_total[OF assms] by blast
  obtain gs where gs: "smooth_gradient gr = Inr gs" "length gs = length gr"
    using smooth_gradient_total by blast
  have "\<forall>c\<in>set (cluster_drops (sharp_drops_of gs)). c \<noteq> [] \<and> (\<forall>i\<in>set c. i < length w)"
    using cluster_drops_inv[of "sharp_drops_of gs"] np_where_bound gs gr assms
    by (fastforce simp: sharp_drops_of_def)
  then obtain r where "center_loop w (cluster_drops (sharp_drops_of gs)) [] = Inr r"
    using center_loop_total by blast
  then show ?thesis using gr gs by (simp add: gradient_pass_def)
qed

lemma absorption_bands_short:
  assumes "length t < 20" "length t \<noteq> 1"
  shows "absorption_bands_of t = Inl ValueError"
proof (cases "t = []")
  case True
  then show ?thesis by (simp add: absorption_bands_of_def np_convolve_same_def)
next
  case False
  then have "np_convolve_same t (replicate 20 (1 / 20))
      = Inr (map (\<lambda>i. convolve_full (replicate 20 (1 / 20)) t (i + ((length t - 1) - length t div 2))) [0..<20])"
    using assms by (simp add: np_convolve_same_def Let_def)
  then show ?thesis
    using assms by (simp add: absorption_bands_of_def np_sub_def)
qed

lemma absorption_bands_long:
  assumes "20 \<le> length t"
  shows "\<exists>bs. absorption_bands_of t = Inr bs \<and> (\<forall>i\<in>set bs. i < length t)"
proof -
  obtain lm where lm: "np_convolve_same t (replicate 20 (1 / 20)) = Inr lm" "length lm = length t"
    using np_convolve_same_length[of "replicate 20 (1 / 20)" t] assms by auto
  then show ?thesis
    using np_where_bound by (fastforce simp: absorption_bands_of_def np_sub_def)
qed


lemma detect_defects_total:
  assumes "length w = length t" "20 \<le> length t"
  shows "\<exists>ds. detect_defects w t = Inr ds"
proof -
  obtain g where g: "gradient_pass w t = Inr g"
    using gradient_pass_total assms by force
  obtain bs where bs: "absorption_bands_of t = Inr bs" "\<forall>i\<in>set bs. i < length t"
    using absorption_bands_long assms by blast
  obtain L where "add_unique w bs g = Inr L"
    using add_unique_total[of bs w g] bs assms by auto
  then show ?thesis using g bs by (simp add: detect_defects_def)
qed

text \<open>The detector evaluated on the sample spectra.\<close>

lemma dip_gradient_pass: "gradient_pass dip_wavelength dip_transmission = Inr []"
  by code_simp

lemma dip_absorption_bands: "absorption_bands_of dip_transmission = Inr [9, 10]"
  by code_simp

lemma dip_detect_defects: "detect_defects dip_wavelength dip_transmission = Inr [760]"
  by code_simp

lemma nir_detect_defects: "detect_defects nir_wavelength nir_transmission = Inr []"
  by code_simp

lemma dip3_gradient_pass: "gradient_pass dip_wavelength dip3_transmission = Inr []"
  by code_simp

lemma dip3_absorption_bands: "absorption_bands_of dip3_transmission = Inr [9, 10, 11]"
  by code_simp

lemma dip3_detect_defects: "detect_defects dip_wavelength dip3_transmission = Inr [760, 840]"
  by code_simp

lemma dip3_steps:
  "add_unique dip_wavelength [9] [] = Inr [760] \<and>
   add_unique dip_wavelength [9, 10] [] = Inr [760] \<and>
   add_unique dip_wavelength [9, 10, 11] [] = Inr [760, 840]"
  by code_simp

lemma band_detect_defects: "detect_defects dip_wavelength band_transmission = Inr []"
  by code_simp



text \<open>
  Claim C2. The claim asks that on arrays shorter than the window sizes the pass whose
  window does not fit is skipped. The gradient pass does so (\<open>smooth_gradient\<close> leaves the
  gradient as it is), the local-deviation pass does not: for 2 to 19 points
  \<^verbatim>\<open>np.convolve(transmission, np.ones(20)/20, mode='same')\<close> has 20 entries, and the
  subtraction \<^verbatim>\<open>transmission - local_mean\<close> raises ValueError.
\<close>

theorem detect_defects_short_raises:
  assumes "length w = length t" "2 \<le> length t" "length t < 20"
  shows "detect_defects w t = Inl ValueError"
proof -
  obtain g where "gradient_pass w t = Inr g"
    using gradient_pass_total assms by blast
  moreover have "absorption_bands_of t = Inl ValueError"
    using absorption_bands_short assms by simp
  ultimately show ?thesis by (simp add: detect_defects_def)
qed

theorem detect_defects_short_raises_witness:
  "length short_wavelength = length short_transmission \<and> 2 \<le> length short_transmission \<and>
   length short_transmission < 20 \<and>
   detect_defects short_wavelength short_transmission = Inl ValueError"
proof -
  have l: "length short_wavelength = length short_transmission"
    by (simp add: short_wavelength_def short_transmission_def)
  have lo: "2 \<le> length short_transmission"
    by (simp add: short_transmission_def)
  have hi: "length short_transmission < 20"
    by (simp add: short_transmission_def)
  show ?thesis
    using detect_defects_short_raises [OF l lo hi] l lo hi by simp
qed

subsection \<open>The local-deviation pass and the running list\<close>

text \<open>
  The loop over the flagged indices, one index at a time: processing one more index
  tests its wavelength against the list as it stands after the indices before it.
\<close>

lemma add_unique_append:
  "add_unique w (xs @ ys) acc =
     (case add_unique w xs acc of Inl e \<Rightarrow> Inl e | Inr L \<Rightarrow> add_unique w ys L)"
  by (induction xs arbitrary: acc) (auto split: sum.splits)

lemma add_unique_step:
  assumes "add_unique w xs acc = Inr L"
  shows "add_unique w (xs @ [idx]) acc =
           (if idx < length w
            then Inr (if \<exists>loc\<in>set L. \<bar>w ! idx - loc\<bar> < 50 then L else L @ [w ! idx])
            else Inl IndexError)"
  using assms by (simp add: add_unique_append getitem_def list_ex_iff)

lemma add_unique_prefix:
  assumes "add_unique w bands acc = Inr L" "k \<le> length bands"
  shows "\<exists>Lk. add_unique w (take k bands) acc = Inr Lk"
proof -
  have "add_unique w (take k bands @ drop k bands) acc = Inr L"
    using assms by simp
  then show ?thesis
    unfolding add_unique_append by (auto split: sum.splits)
qed

lemma add_unique_spacing:
  assumes "add_unique w bs acc = Inr L"
  shows "length acc \<le> length L \<and> take (length acc) L = acc \<and>
         (\<forall>j. length acc \<le> j \<and> j < length L \<longrightarrow> (\<forall>i<j. 50 \<le> \<bar>L ! j - L ! i\<bar>))"
  using assms
proof (induction bs arbitrary: acc)
  case Nil
  then show ?case by auto
next
  case (Cons b bs)
  from Cons.prems obtain wl where wl: "getitem w b = Inr wl"
    by (auto split: sum.splits)
  show ?case
  proof (cases "list_ex (\<lambda>loc. \<bar>wl - loc\<bar> < 50) acc")
    case True
    then have "add_unique w bs acc = Inr L"
      using Cons.prems wl by simp
    then show ?thesis by (rule Cons.IH)
  next
    case False
    then have rec: "add_unique w bs (acc @ [wl]) = Inr L"
      using Cons.prems wl by simp
    note ih = Cons.IH[OF rec]
    have len: "Suc (length acc) \<le> length L" using ih by simp
    have tk: "take (Suc (length acc)) L = acc @ [wl]" using ih by simp
    have "take (length acc) (take (Suc (length acc)) L) = take (length acc) L"
      by (simp add: min_def)
    then have pre: "take (length acc) L = acc"
      using tk by simp
    have "take (Suc (length acc)) L ! length acc = L ! length acc"
      by simp
    then have at: "L ! length acc = wl"
      using tk by simp
    have far: "\<forall>i<length acc. 50 \<le> \<bar>wl - L ! i\<bar>"
    proof (intro allI impI)
      fix i assume i: "i < length acc"
      then have "take (length acc) L ! i = L ! i"
        by simp
      then have "L ! i = acc ! i"
        using pre by simp
      moreover have "acc ! i \<in> set acc" using i by simp
      ultimately show "50 \<le> \<bar>wl - L ! i\<bar>"
        using False by (fastforce simp: list_ex_iff)
    qed
    show ?thesis
    proof (intro conjI allI impI)
      show "length acc \<le> length L" using len by simp
      show "take (length acc) L = acc" by (rule pre)
    next
      fix j i
      assume j: "length acc \<le> j \<and> j < length L" and i: "i < j"
      show "50 \<le> \<bar>L ! j - L ! i\<bar>"
      proof (cases "j = length acc")
        case True
        then show ?thesis using at far i by simp
      next
        case False
        then have "length (acc @ [wl]) \<le> j \<and> j < length L" using j by simp
        then show ?thesis using ih i by blast
      qed
    qed
  qed
qed

text \<open>The list only grows along the loop.\<close>

lemma add_unique_grows:
  assumes "add_unique w (take k bs) acc = Inr A" "add_unique w (take k' bs) acc = Inr B" "k \<le> k'"
  shows "set A \<subseteq> set B"
proof -
  have "take k (take k' bs) = take k bs"
    using assms(3) by (simp add: min_def)
  then have "take k' bs = take k bs @ drop k (take k' bs)"
    by (metis append_take_drop_id)
  then have "add_unique w (take k bs @ drop k (take k' bs)) acc = Inr B"
    using assms(2) by simp
  then have "add_unique w (drop k (take k' bs)) A = Inr B"
    using assms(1) by (simp add: add_unique_append)
  then have "take (length A) B = A"
    using add_unique_spacing by blast
  then show ?thesis
    by (metis set_take_subset)
qed

text \<open>
  Claim C3, as the specification states it, fails. On the sample with a dip at 760 nm and
  800 nm the gradient pass finds nothing, the local-deviation pass flags the indices 9
  and 10, both wavelengths are 50 nm or more from every gradient-pass location (there is
  none) and within 50 nm of each other; the claim has both reported, the code reports
  760 only.
\<close>

theorem local_deviation_no_self_dedup_counterexample:
  "gradient_pass dip_wavelength dip_transmission = Inr [] \<and>
   absorption_bands_of dip_transmission = Inr [9, 10] \<and>
   dip_wavelength ! 9 = 760 \<and> dip_wavelength ! 10 = 800 \<and> \<bar>(800::real) - 760\<bar> < 50 \<and>
   detect_defects dip_wavelength dip_transmission = Inr [760]"
  using dip_gradient_pass dip_absorption_bands dip_detect_defects
  by (simp add: dip_wavelength_def)

text \<open>
  Claim C3, amended. A flagged index is added exactly when its wavelength is not within
  50 nm of any location in the list at that point of the loop: the gradient-pass
  locations and the locations the local-deviation pass itself has added before. So each
  location added by the local-deviation pass is 50 nm or more from every location before
  it in the list, and of two flagged indices within 50 nm of each other the later one is
  not added when the earlier one was added. The later one can be added when the earlier
  one was itself skipped: flagged 760, 800 and 840 nm give 760 and 840. The result is the
  list sorted.
\<close>

theorem local_deviation_pass_dedup:
  assumes "detect_defects w t = Inr ds"
  shows "\<exists>g bands L. gradient_pass w t = Inr g \<and> absorption_bands_of t = Inr bands \<and>
           add_unique w bands g = Inr L \<and> ds = sort L \<and> take (length g) L = g \<and>
           (\<forall>k<length bands. \<exists>Lk. add_unique w (take k bands) g = Inr Lk \<and>
              add_unique w (take (Suc k) bands) g =
                Inr (if \<exists>loc\<in>set Lk. \<bar>w ! (bands ! k) - loc\<bar> < 50 then Lk
                     else Lk @ [w ! (bands ! k)])) \<and>
           (\<forall>j. length g \<le> j \<and> j < length L \<longrightarrow> (\<forall>i<j. 50 \<le> \<bar>L ! j - L ! i\<bar>)) \<and>
           (\<forall>k k'. k < k' \<and> k' < length bands \<and>
                   \<bar>w ! (bands ! k') - w ! (bands ! k)\<bar> < 50 \<and>
                   add_unique w (take (Suc k) bands) g \<noteq> add_unique w (take k bands) g
                   \<longrightarrow> add_unique w (take (Suc k') bands) g = add_unique w (take k' bands) g)"
proof -
  obtain g bands L where g: "gradient_pass w t = Inr g"
    and b: "absorption_bands_of t = Inr bands"
    and L: "add_unique w bands g = Inr L" and ds: "ds = sort L"
    using detect_defects_Inr[OF assms] by blast
  have steps: "\<forall>k<length bands. \<exists>Lk. add_unique w (take k bands) g = Inr Lk \<and>
              add_unique w (take (Suc k) bands) g =
                Inr (if \<exists>loc\<in>set Lk. \<bar>w ! (bands ! k) - loc\<bar> < 50 then Lk
                     else Lk @ [w ! (bands ! k)])"
  proof (intro allI impI)
    fix k assume k: "k < length bands"
    obtain Lk where Lk: "add_unique w (take k bands) g = Inr Lk"
      using add_unique_prefix[OF L, of k] k by auto
    obtain Ls where Ls: "add_unique w (take (Suc k) bands) g = Inr Ls"
      using add_unique_prefix[OF L, of "Suc k"] k by auto
    have tk: "take (Suc k) bands = take k bands @ [bands ! k]"
      using k by (simp add: take_Suc_conv_app_nth)
    have "bands ! k < length w"
      using Ls add_unique_step[OF Lk, of "bands ! k"] unfolding tk
      by (auto split: if_splits)
    then have "add_unique w (take (Suc k) bands) g =
                Inr (if \<exists>loc\<in>set Lk. \<bar>w ! (bands ! k) - loc\<bar> < 50 then Lk
                     else Lk @ [w ! (bands ! k)])"
      using add_unique_step[OF Lk, of "bands ! k"] unfolding tk by simp
    then show "\<exists>Lk. add_unique w (take k bands) g = Inr Lk \<and>
              add_unique w (take (Suc k) bands) g =
                Inr (if \<exists>loc\<in>set Lk. \<bar>w ! (bands ! k) - loc\<bar> < 50 then Lk
                     else Lk @ [w ! (bands ! k)])"
      using Lk by blast
  qed
  have later: "\<forall>k k'. k < k' \<and> k' < length bands \<and>
                   \<bar>w ! (bands ! k') - w ! (bands ! k)\<bar> < 50 \<and>
                   add_unique w (take (Suc k) bands) g \<noteq> add_unique w (take k bands) g
                   \<longrightarrow> add_unique w (take (Suc k') bands) g = add_unique w (take k' bands) g"
  proof (intro allI impI)
    fix k k'
    assume h: "k < k' \<and> k' < length bands \<and>
                   \<bar>w ! (bands ! k') - w ! (bands ! k)\<bar> < 50 \<and>
                   add_unique w (take (Suc k) bands) g \<noteq> add_unique w (take k bands) g"
    then have k: "k < length bands" and k': "k' < length bands"
      by auto
    obtain Lk where Lk: "add_unique w (take k bands) g = Inr Lk"
      and Sk: "add_unique w (take (Suc k) bands) g =
                Inr (if \<exists>loc\<in>set Lk. \<bar>w ! (bands ! k) - loc\<bar> < 50 then Lk
                     else Lk @ [w ! (bands ! k)])"
      using steps k by blast
    have added: "add_unique w (take (Suc k) bands) g = Inr (Lk @ [w ! (bands ! k)])"
      using h Lk Sk by (auto split: if_splits)
    obtain Lk' where Lk': "add_unique w (take k' bands) g = Inr Lk'"
      and Sk': "add_unique w (take (Suc k') bands) g =
                Inr (if \<exists>loc\<in>set Lk'. \<bar>w ! (bands ! k') - loc\<bar> < 50 then Lk'
                     else Lk' @ [w ! (bands ! k')])"
      using steps k' by blast
    have "set (Lk @ [w ! (bands ! k)]) \<subseteq> set Lk'"
      using add_unique_grows[OF added Lk'] h by simp
    then have "w ! (bands ! k) \<in> set Lk'"
      by simp
    then have "\<exists>loc\<in>set Lk'. \<bar>w ! (bands ! k') - loc\<bar> < 50"
      using h by blast
    then show "add_unique w (take (Suc k') bands) g = add_unique w (take k' bands) g"
      using Sk' Lk' by simp
  qed
  show ?thesis
    using g b L ds steps later add_unique_spacing[OF L] by blast
qed

text \<open>
  The witness is the sample with the dip over 760, 800 and 840 nm: 800 is skipped for
  760, and 840, which is 80 nm from 760, is added although it is 40 nm from 800.
\<close>

theorem local_deviation_pass_dedup_witness:
  "detect_defects dip_wavelength dip3_transmission = Inr [760, 840] \<and>
   add_unique dip_wavelength [9] [] = Inr [760] \<and>
   add_unique dip_wavelength [9, 10] [] = Inr [760] \<and>
   add_unique dip_wavelength [9, 10, 11] [] = Inr [760, 840] \<and>
   (\<exists>g bands L. gradient_pass dip_wavelength dip3_transmission = Inr g \<and>
           absorption_bands_of dip3_transmission = Inr bands \<and>
           add_unique dip_wavelength bands g = Inr L \<and> [760, 840] = sort L \<and>
           take (length g) L = g \<and>
           (\<forall>k<length bands. \<exists>Lk. add_unique dip_wavelength (take k bands) g = Inr Lk \<and>
              add_unique dip_wavelength (take (Suc k) bands) g =
                Inr (if \<exists>loc\<in>set Lk. \<bar>dip_wavelength ! (bands ! k) - loc\<bar> < 50 then Lk
                     else Lk @ [dip_wavelength ! (bands ! k)])) \<and>
           (\<forall>j. length g \<le> j \<and> j < length L \<longrightarrow> (\<forall>i<j. 50 \<le> \<bar>L ! j - L ! i\<bar>)) \<and>
           (\<forall>k k'. k < k' \<and> k' < length bands \<and>
                   \<bar>dip_wavelength ! (bands ! k') - dip_wavelength ! (bands ! k)\<bar> < 50 \<and>
                   add_unique dip_wavelength (take (Suc k) bands) g
                     \<noteq> add_unique dip_wavelength (take k bands) g
                   \<longrightarrow> add_unique dip_wavelength (take (Suc k') bands) g
                         = add_unique dip_wavelength (take k' bands) g))"
  using dip3_detect_defects dip3_steps
    local_deviation_pass_dedup [OF dip3_detect_defects]
  by blast

subsection \<open>Metrics: the stages of \<open>calculate_metrics\<close>\<close>

text \<open>
  A returned record is assembled from the results of the stages, each of which has
  returned; the arrays then have one length, since \<^verbatim>\<open>np.gradient\<close> has accepted them.
\<close>

lemma calculate_metrics_Inr:
  assumes "calculate_metrics self w t sid mat = Inr m"
  shows "\<exists>peak av n0 bw u locs.
           np_max t = Inr peak \<and>
           visible_average w t = Inr (av, n0) \<and>
           calculate_bandwidth w t (bandwidth_threshold self) = Inr bw \<and>
           uniformity_of w t = Inr u \<and>
           detect_defects w t = Inr locs \<and>
           m = assemble_metrics self sid mat peak av n0 (np_mean t) bw u locs"
  using assms unfolding calculate_metrics_def Let_def
  by (auto split: sum.splits prod.splits)

lemma gradient_pass_Inr_length:
  "gradient_pass w t = Inr g \<Longrightarrow> length w = length t"
  unfolding gradient_pass_def using np_gradient_Inr_length[of t w]
  by (auto split: sum.splits)

lemma calculate_metrics_Inr_length:
  assumes "calculate_metrics self w t sid mat = Inr m"
  shows "length w = length t"
proof -
  obtain locs where "detect_defects w t = Inr locs"
    using calculate_metrics_Inr[OF assms] by blast
  then obtain g where "gradient_pass w t = Inr g"
    using detect_defects_Inr by blast
  then show ?thesis by (rule gradient_pass_Inr_length)
qed

lemma select_visible:
  assumes "length w = length t"
  shows "map fst (filter snd (zip t (map P w))) = map snd (filter (\<lambda>(wl, tr). P wl) (zip w t))"
  using assms by (induction w t rule: list_induct2) auto

lemma np_select_visible:
  assumes "length w = length t"
  shows "np_select t (visible_mask_of w)
           = Inr (map snd (filter (\<lambda>(wl, tr). 400 \<le> wl \<and> wl \<le> 700) (zip w t)))"
  using assms select_visible[OF assms, of "\<lambda>x. 400 \<le> x \<and> x \<le> 700"]
  by (simp add: np_select_def visible_mask_of_def VISIBLE_RANGE_def)

lemma mask_any_visible:
  assumes "length w = length t"
  shows "mask_any (visible_mask_of w)
           = (map snd (filter (\<lambda>(wl, tr). 400 \<le> wl \<and> wl \<le> 700) (zip w t)) \<noteq> [])"
  using assms
  by (induction w t rule: list_induct2)
     (auto simp: mask_any_def visible_mask_of_def VISIBLE_RANGE_def)

lemma np_std_nonneg: "0 \<le> np_std xs"
proof -
  have "0 \<le> sum_list (map (\<lambda>x. \<bar>x - np_mean xs\<bar> ^ 2) xs)"
    by (rule sum_list_nonneg) auto
  then show ?thesis
    by (simp add: np_std_def np_mean_def)
qed

text \<open>
  The bandwidth of a returned record is the result of \<open>calculate_bandwidth\<close> at the
  configured threshold.
\<close>

lemma calculate_metrics_bandwidth:
  assumes "calculate_metrics self w t sid mat = Inr m"
  shows "calculate_bandwidth w t (bandwidth_threshold self) = Inr (transmission_bandwidth_nm m)"
  using calculate_metrics_Inr[OF assms] by (auto simp: assemble_metrics_def Let_def)

text \<open>
  \<open>calculate_metrics\<close> returns a record for every pair of arrays of one length with 20
  points or more.
\<close>

lemma fold_max_in: "fold max xs (x::real) \<in> set (x # xs)"
  by (induction xs arbitrary: x) (auto simp: max_def)

lemma np_argmax_total:
  assumes "t \<noteq> []"
  shows "\<exists>i. np_argmax t = Inr i \<and> i < length t"
proof -
  let ?m = "fold max (tl t) (hd t)"
  have "?m \<in> set t"
    using fold_max_in[of "tl t" "hd t"] assms by simp
  then obtain j where j: "j < length t" "t ! j = ?m"
    by (auto simp: in_set_conv_nth)
  then have ne: "filter (\<lambda>i. t ! i = ?m) [0..<length t] \<noteq> []"
    by (auto simp: filter_empty_conv)
  then have "hd (filter (\<lambda>i. t ! i = ?m) [0..<length t]) \<in> set (filter (\<lambda>i. t ! i = ?m) [0..<length t])"
    by (rule hd_in_set)
  then have "hd (filter (\<lambda>i. t ! i = ?m) [0..<length t]) < length t"
    by simp
  then show ?thesis
    using assms by (simp add: np_argmax_def)
qed

lemma calculate_metrics_total:
  assumes "length w = length t" "20 \<le> length t"
  shows "\<exists>m. calculate_metrics self w t sid mat = Inr m"
proof -
  have ne: "t \<noteq> []" using assms by auto
  obtain i where i: "np_argmax t = Inr i" "i < length t"
    using np_argmax_total[OF ne] by blast
  obtain locs where d: "detect_defects w t = Inr locs"
    using detect_defects_total[OF assms] by blast
  have va: "\<exists>p. visible_average w t = Inr p"
    using np_select_visible[OF assms(1)] by (simp add: visible_average_def Let_def)
  have un: "\<exists>u. uniformity_of w t = Inr u"
    using np_select_visible[OF assms(1)] by (simp add: uniformity_of_def Let_def)
  have bw: "\<exists>b. calculate_bandwidth w t (bandwidth_threshold self) = Inr b"
  proof (cases "calculate_bandwidth w t (bandwidth_threshold self)")
    case (Inr b)
    then show ?thesis by simp
  next
    case (Inl e)
    let ?ix = "np_where (map (\<lambda>x. bandwidth_threshold self \<le> x) t)"
    have "?ix \<noteq> [] \<Longrightarrow> last ?ix < length w \<and> hd ?ix < length w"
      using np_where_bound[of _ "map (\<lambda>x. bandwidth_threshold self \<le> x) t"] assms(1)
        last_in_set[of ?ix] hd_in_set[of ?ix] by auto
    then show ?thesis
      by (auto simp: calculate_bandwidth_def Let_def getitem_def)
  qed
  show ?thesis
    using ne i d va un bw assms(1)
    by (auto simp: calculate_metrics_def Let_def np_max_def getitem_def split: sum.splits prod.splits)
qed

text \<open>The metrics of the two 20-point samples.\<close>

lemma dip_np_max: "np_max dip_transmission = Inr 90" by code_simp
lemma dip_np_argmax: "np_argmax dip_transmission = Inr 0" by code_simp
lemma dip_peak_wavelength: "getitem dip_wavelength 0 = Inr 400" by code_simp
lemma dip_np_mean: "np_mean dip_transmission = 88" by code_simp
lemma dip_visible_average: "visible_average dip_wavelength dip_transmission = Inr (90, [])"
  by code_simp
lemma dip_bandwidth: "calculate_bandwidth dip_wavelength dip_transmission 80 = Inr 760"
  by code_simp
lemma dip_mask_any: "mask_any (visible_mask_of dip_wavelength)" by code_simp
lemma dip_select: "np_select dip_transmission (visible_mask_of dip_wavelength)
   = Inr [90, 90, 90, 90, 90, 90, 90, 90]" by code_simp

lemma dip_uniformity: "uniformity_of dip_wavelength dip_transmission = Inr 100"
proof -
  have m: "np_mean [90, 90, 90, 90, 90, 90, 90, 90] = 90"
    by (simp add: np_mean_def)
  have "np_std [90, 90, 90, 90, 90, 90, 90, 90] = 0"
    unfolding np_std_def m by (simp add: np_mean_def)
  then show ?thesis
    using m dip_mask_any dip_select by (simp add: uniformity_of_def)
qed

lemma dip_metrics:
  "calculate_metrics default_classifier dip_wavelength dip_transmission ''unknown'' ''unknown''
     = Inr dip_metrics_record"
  using dip_np_max dip_np_argmax dip_peak_wavelength dip_np_mean dip_visible_average
    dip_bandwidth dip_uniformity dip_detect_defects
  by (simp add: calculate_metrics_def assemble_metrics_def default_classifier_def
      classify_grade_def dip_metrics_record_def nir_metrics_record_def)

lemma nir_np_max: "np_max nir_transmission = Inr 95" by code_simp
lemma nir_np_argmax: "np_argmax nir_transmission = Inr 19" by code_simp
lemma nir_peak_wavelength: "getitem nir_wavelength 19 = Inr 1560" by code_simp
lemma nir_np_mean: "np_mean nir_transmission = 171 / 2" by code_simp
lemma nir_visible_average:
  "visible_average nir_wavelength nir_transmission = Inr (171 / 2, [NoteVisibleNotCovered])"
  by code_simp
lemma nir_bandwidth: "calculate_bandwidth nir_wavelength nir_transmission 80 = Inr 600"
  by code_simp
lemma nir_mask_any: "\<not> mask_any (visible_mask_of nir_wavelength)" by code_simp

lemma nir_uniformity: "uniformity_of nir_wavelength nir_transmission = Inr 0"
  using nir_mask_any by (simp add: uniformity_of_def)

lemma band_np_max: "np_max band_transmission = Inr 100" by code_simp
lemma band_np_argmax: "np_argmax band_transmission = Inr 1" by code_simp
lemma band_peak_wavelength: "getitem dip_wavelength 1 = Inr 440" by code_simp
lemma band_np_mean: "np_mean band_transmission = 80" by code_simp
lemma band_visible_average: "visible_average dip_wavelength band_transmission = Inr (80, [])"
  by code_simp
lemma band_bandwidth: "calculate_bandwidth dip_wavelength band_transmission 80 = Inr 720"
  by code_simp
lemma band_select: "np_select band_transmission (visible_mask_of dip_wavelength)
   = Inr [60, 100, 60, 100, 60, 100, 60, 100]" by code_simp

lemma sqrt_400: "sqrt 400 = 20"
  by (rule real_sqrt_unique) simp_all

lemma band_uniformity: "uniformity_of dip_wavelength band_transmission = Inr 75"
proof -
  have m: "np_mean [60, 100, 60, 100, 60, 100, 60, 100] = 80"
    by (simp add: np_mean_def)
  have "np_std [60, 100, 60, 100, 60, 100, 60, 100] = 20"
    unfolding np_std_def m by (simp add: np_mean_def sqrt_400)
  then show ?thesis
    using m dip_mask_any band_select by (simp add: uniformity_of_def)
qed

lemma band_metrics:
  "calculate_metrics default_classifier dip_wavelength band_transmission ''unknown'' ''unknown''
     = Inr band_metrics_record"
  using band_np_max band_np_argmax band_peak_wavelength band_np_mean band_visible_average
    band_bandwidth band_uniformity band_detect_defects
  by (simp add: calculate_metrics_def assemble_metrics_def default_classifier_def
      classify_grade_def band_metrics_record_def)

lemma nir_metrics:
  "calculate_metrics default_classifier nir_wavelength nir_transmission ''unknown'' ''unknown''
     = Inr nir_metrics_record"
  using nir_np_max nir_np_argmax nir_peak_wavelength nir_np_mean nir_visible_average
    nir_bandwidth nir_uniformity nir_detect_defects
  by (simp add: calculate_metrics_def assemble_metrics_def default_classifier_def
      classify_grade_def dip_metrics_record_def nir_metrics_record_def)

text \<open>
  Claim C4. In every record \<open>calculate_metrics\<close> returns, \<open>pass_qc\<close> is true exactly when
  \<open>avg_visible\<close> is at least the configured \<open>visible_threshold\<close> and \<open>defect_count\<close> is 0;
  with a defect, \<open>pass_qc\<close> is false whatever the transmission.
\<close>

theorem pass_qc_rule:
  assumes "calculate_metrics self w t sid mat = Inr m"
  shows "pass_qc m = (avg_transmission_visible m \<ge> visible_threshold self \<and> defect_count m = 0)
         \<and> (defect_count m > 0 \<longrightarrow> \<not> pass_qc m)"
  using calculate_metrics_Inr[OF assms]
  by (auto simp: assemble_metrics_def Let_def)

theorem pass_qc_rule_witness:
  "calculate_metrics default_classifier dip_wavelength dip_transmission ''unknown'' ''unknown''
     = Inr dip_metrics_record \<and>
   visible_threshold default_classifier \<le> avg_transmission_visible dip_metrics_record \<and>
   0 < defect_count dip_metrics_record \<and> \<not> pass_qc dip_metrics_record \<and>
   calculate_metrics default_classifier nir_wavelength nir_transmission ''unknown'' ''unknown''
     = Inr nir_metrics_record \<and>
   visible_threshold default_classifier \<le> avg_transmission_visible nir_metrics_record \<and>
   defect_count nir_metrics_record = 0 \<and> pass_qc nir_metrics_record"
  using pass_qc_rule [OF dip_metrics] pass_qc_rule [OF nir_metrics] dip_metrics nir_metrics
  by (simp add: dip_metrics_record_def nir_metrics_record_def default_classifier_def)

text \<open>
  Claim C6. The grade is a function of \<open>avg_visible\<close> alone, with the fixed thresholds 90,
  80 and 70; the grade in a returned record is this function of the record's
  \<open>avg_transmission_visible\<close>, and another \<open>visible_threshold\<close> gives a record with the
  same grade.
\<close>

theorem grade_fixed_thresholds:
  "classify_grade a =
     (if a \<ge> 90 then EXCELLENT else if a \<ge> 80 then GOOD else if a \<ge> 70 then FAIR else POOR)
   \<and> (\<forall>self w t sid mat m v. calculate_metrics self w t sid mat = Inr m \<longrightarrow>
         quality_grade m = classify_grade (avg_transmission_visible m) \<and>
         (\<exists>m'. calculate_metrics (self\<lparr>visible_threshold := v\<rparr>) w t sid mat = Inr m' \<and>
               quality_grade m' = quality_grade m))"
proof (intro conjI allI impI)
  show "classify_grade a =
     (if a \<ge> 90 then EXCELLENT else if a \<ge> 80 then GOOD else if a \<ge> 70 then FAIR else POOR)"
    by (simp add: classify_grade_def)
next
  fix self w t sid mat m v
  assume h: "calculate_metrics self w t sid mat = Inr m"
  show "quality_grade m = classify_grade (avg_transmission_visible m)"
    using calculate_metrics_Inr[OF h] by (auto simp: assemble_metrics_def Let_def)
next
  fix self w t sid mat m v
  assume h: "calculate_metrics self w t sid mat = Inr m"
  obtain peak av n0 bw u locs where p:
    "np_max t = Inr peak" "visible_average w t = Inr (av, n0)"
    "calculate_bandwidth w t (bandwidth_threshold self) = Inr bw"
    "uniformity_of w t = Inr u" "detect_defects w t = Inr locs"
    "m = assemble_metrics self sid mat peak av n0 (np_mean t) bw u locs"
    using calculate_metrics_Inr[OF h] by blast
  have "\<exists>i. np_argmax t = Inr i \<and> (\<exists>x. getitem w i = Inr x)"
    using h unfolding calculate_metrics_def by (auto split: sum.splits)
  then have "calculate_metrics (self\<lparr>visible_threshold := v\<rparr>) w t sid mat
       = Inr (assemble_metrics (self\<lparr>visible_threshold := v\<rparr>) sid mat peak av n0 (np_mean t) bw u locs)"
    using p by (auto simp: calculate_metrics_def Let_def)
  then show "\<exists>m'. calculate_metrics (self\<lparr>visible_threshold := v\<rparr>) w t sid mat = Inr m' \<and>
               quality_grade m' = quality_grade m"
    using p(6) by (simp add: assemble_metrics_def Let_def)
qed

theorem grade_fixed_thresholds_witness:
  "classify_grade 90 = EXCELLENT \<and>
   calculate_metrics default_classifier dip_wavelength dip_transmission ''unknown'' ''unknown''
     = Inr dip_metrics_record \<and>
   quality_grade dip_metrics_record = classify_grade (avg_transmission_visible dip_metrics_record) \<and>
   (\<exists>m'. calculate_metrics (default_classifier\<lparr>visible_threshold := 95\<rparr>)
            dip_wavelength dip_transmission ''unknown'' ''unknown'' = Inr m' \<and>
         quality_grade m' = quality_grade dip_metrics_record)"
proof -
  have "classify_grade 90 = EXCELLENT"
    using grade_fixed_thresholds [of 90, THEN conjunct1] by simp
  then show ?thesis
    using grade_fixed_thresholds [of 90, THEN conjunct2, rule_format, OF dip_metrics, of 95]
      dip_metrics
    by blast
qed

text \<open>
  Claim C8. In every record \<open>calculate_metrics\<close> returns, the uniformity score lies in
  [0, 100]. With \<open>vis\<close> the transmission values at wavelengths in [400, 700], \<open>mu\<close> their
  mean and \<open>sd\<close> their population standard deviation, the square root of the mean of the
  squared deviations from \<open>mu\<close>, the score is \<open>100 * max 0 (1 - sd / mu)\<close> when \<open>mu\<close> is
  positive, 0 when \<open>mu\<close> is not positive, and 0 when \<open>vis\<close> is empty.
\<close>

theorem uniformity_score_range:
  assumes "calculate_metrics self w t sid mat = Inr m"
  shows "0 \<le> uniformity_score m \<and> uniformity_score m \<le> 100 \<and>
         uniformity_score m =
           (let vis = map snd (filter (\<lambda>(wl, tr). 400 \<le> wl \<and> wl \<le> 700) (zip w t));
                n = real (length vis);
                mu = sum_list vis / n;
                sd = sqrt (sum_list (map (\<lambda>x. (x - mu) ^ 2) vis) / n)
            in if vis = [] then 0
               else if mu > 0 then 100 * max 0 (1 - sd / mu)
               else 0)"
proof -
  let ?vis = "map snd (filter (\<lambda>(wl, tr). 400 \<le> wl \<and> wl \<le> 700) (zip w t))"
  let ?n = "real (length ?vis)"
  let ?mu = "sum_list ?vis / ?n"
  let ?sd = "sqrt (sum_list (map (\<lambda>x. (x - ?mu) ^ 2) ?vis) / ?n)"
  have len: "length w = length t"
    using assms by (rule calculate_metrics_Inr_length)
  obtain u where u: "uniformity_of w t = Inr u" and m: "uniformity_score m = u"
    using calculate_metrics_Inr[OF assms] by (auto simp: assemble_metrics_def Let_def)
  have mean: "np_mean ?vis = ?mu"
    by (simp add: np_mean_def)
  have std: "np_std ?vis = ?sd"
    by (simp add: np_std_def np_mean_def)
  have eq0: "u = (if ?vis = [] then 0
            else if np_mean ?vis > 0 then 100 * max 0 (1 - np_std ?vis / np_mean ?vis)
            else 0)"
    using u np_select_visible[OF len] mask_any_visible[OF len]
    by (auto simp: uniformity_of_def Let_def split: if_splits)
  have eq: "u = (if ?vis = [] then 0
            else if ?mu > 0 then 100 * max 0 (1 - ?sd / ?mu)
            else 0)"
    using eq0 unfolding mean std .
  have sd: "0 \<le> ?sd"
    using np_std_nonneg[of ?vis] unfolding std .
  have "0 \<le> ?sd / ?mu" if "?mu > 0"
    using sd that by (rule divide_nonneg_pos)
  then have "0 \<le> u \<and> u \<le> 100"
    unfolding eq by (auto simp: max_def)
  then show ?thesis
    using eq m unfolding Let_def by simp
qed

text \<open>
  The witness has a visible band alternating between 60 and 100 (mean 80, standard
  deviation 20, score 75), a flat visible band (score 100) and no visible point (score 0).
\<close>

theorem uniformity_score_range_witness:
  "calculate_metrics default_classifier dip_wavelength band_transmission ''unknown'' ''unknown''
     = Inr band_metrics_record \<and>
   uniformity_score band_metrics_record = 75 \<and>
   uniformity_score band_metrics_record =
     100 * max 0 (1 - sqrt (sum_list (map (\<lambda>x. (x - 80) ^ 2)
                              [60, 100, 60, 100, 60, 100, 60, 100]) / 8) / 80) \<and>
   0 \<le> uniformity_score band_metrics_record \<and> uniformity_score band_metrics_record \<le> 100 \<and>
   calculate_metrics default_classifier dip_wavelength dip_transmission ''unknown'' ''unknown''
     = Inr dip_metrics_record \<and>
   0 \<le> uniformity_score dip_metrics_record \<and> uniformity_score dip_metrics_record \<le> 100 \<and>
   uniformity_score dip_metrics_record = 100 \<and>
   calculate_metrics default_classifier nir_wavelength nir_transmission ''unknown'' ''unknown''
     = Inr nir_metrics_record \<and>
   0 \<le> uniformity_score nir_metrics_record \<and> uniformity_score nir_metrics_record \<le> 100 \<and>
   uniformity_score nir_metrics_record = 0"
proof -
  have vis: "map snd (filter (\<lambda>(wl, tr). 400 \<le> wl \<and> wl \<le> 700)
               (zip dip_wavelength band_transmission)) = [60, 100, 60, 100, 60, 100, 60, 100]"
    by (simp add: dip_wavelength_def band_transmission_def)
  have band: "0 \<le> uniformity_score band_metrics_record \<and>
        uniformity_score band_metrics_record \<le> 100 \<and>
        uniformity_score band_metrics_record =
          100 * max 0 (1 - sqrt (sum_list (map (\<lambda>x. (x - 80) ^ 2)
                              [60, 100, 60, 100, 60, 100, 60, 100]) / 8) / 80)"
    using uniformity_score_range [OF band_metrics] unfolding Let_def vis by simp
  have dip: "0 \<le> uniformity_score dip_metrics_record \<and> uniformity_score dip_metrics_record \<le> 100"
    using uniformity_score_range [OF dip_metrics] by blast
  have nir: "0 \<le> uniformity_score nir_metrics_record \<and> uniformity_score nir_metrics_record \<le> 100"
    using uniformity_score_range [OF nir_metrics] by blast
  have vals: "uniformity_score band_metrics_record = 75 \<and>
      uniformity_score dip_metrics_record = 100 \<and> uniformity_score nir_metrics_record = 0"
    by (simp add: band_metrics_record_def dip_metrics_record_def nir_metrics_record_def)
  show ?thesis
    using band dip nir vals band_metrics dip_metrics nir_metrics by blast
qed

text \<open>
  Claim C9. In every record \<open>calculate_metrics\<close> returns, \<open>avg_transmission_visible\<close> is
  the mean of the transmission values at wavelengths in [400, 700] when there is such a
  point; when there is none it is the mean of the whole transmission array, and the note
  that the visible range is not covered is among the notes.
\<close>

theorem avg_visible_or_fallback:
  assumes "calculate_metrics self w t sid mat = Inr m"
  shows "(let vis = map snd (filter (\<lambda>(wl, tr). 400 \<le> wl \<and> wl \<le> 700) (zip w t)) in
          (vis \<noteq> [] \<longrightarrow> avg_transmission_visible m = sum_list vis / real (length vis)) \<and>
          (vis = [] \<longrightarrow> avg_transmission_visible m = sum_list t / real (length t) \<and>
                        NoteVisibleNotCovered \<in> set (diag_notes m)))"
proof -
  let ?vis = "map snd (filter (\<lambda>(wl, tr). 400 \<le> wl \<and> wl \<le> 700) (zip w t))"
  have len: "length w = length t"
    using assms by (rule calculate_metrics_Inr_length)
  obtain av n0 where va: "visible_average w t = Inr (av, n0)"
    and av: "avg_transmission_visible m = av" and n0: "set n0 \<subseteq> set (diag_notes m)"
    using calculate_metrics_Inr[OF assms] by (auto simp: assemble_metrics_def Let_def)
  have "?vis \<noteq> [] \<longrightarrow> av = sum_list ?vis / real (length ?vis)"
    using va np_select_visible[OF len] mask_any_visible[OF len]
    by (auto simp: visible_average_def Let_def np_mean_def split: if_splits)
  moreover have "?vis = [] \<longrightarrow> av = sum_list t / real (length t) \<and> NoteVisibleNotCovered \<in> set n0"
    using va np_select_visible[OF len] mask_any_visible[OF len]
    by (auto simp: visible_average_def Let_def np_mean_def split: if_splits)
  ultimately show ?thesis
    using av n0 by (auto simp: Let_def)
qed

theorem avg_visible_or_fallback_witness:
  "calculate_metrics default_classifier dip_wavelength dip_transmission ''unknown'' ''unknown''
     = Inr dip_metrics_record \<and>
   avg_transmission_visible dip_metrics_record = 90 \<and>
   avg_transmission_full dip_metrics_record = 88 \<and>
   calculate_metrics default_classifier nir_wavelength nir_transmission ''unknown'' ''unknown''
     = Inr nir_metrics_record \<and>
   avg_transmission_visible nir_metrics_record = sum_list nir_transmission / 20 \<and>
   NoteVisibleNotCovered \<in> set (diag_notes nir_metrics_record)"
proof -
  have vis: "map snd (filter (\<lambda>(wl, tr). 400 \<le> wl \<and> wl \<le> 700)
               (zip nir_wavelength nir_transmission)) = []"
    by (simp add: nir_wavelength_def nir_transmission_def)
  have "avg_transmission_visible nir_metrics_record
          = sum_list nir_transmission / real (length nir_transmission) \<and>
        NoteVisibleNotCovered \<in> set (diag_notes nir_metrics_record)"
    using avg_visible_or_fallback [OF nir_metrics] unfolding Let_def vis by simp
  moreover have "length nir_transmission = 20"
    by (simp add: nir_transmission_def)
  ultimately show ?thesis
    using dip_metrics nir_metrics by (simp add: dip_metrics_record_def)
qed

subsection \<open>Errors of \<open>calculate_metrics\<close>\<close>

text \<open>Each stage raises a ValueError or an IndexError of numpy, and nothing else.\<close>

lemma getitem_error: "getitem xs i = Inl e \<Longrightarrow> e = IndexError"
  by (simp add: getitem_def split: if_splits)

lemma center_loop_error: "center_loop w cs acc = Inl e \<Longrightarrow> e = IndexError"
  by (induction cs arbitrary: acc) (auto dest: getitem_error split: sum.splits)

lemma add_unique_error: "add_unique w bs acc = Inl e \<Longrightarrow> e = IndexError"
  by (induction bs arbitrary: acc) (auto dest: getitem_error split: sum.splits if_splits)

lemma np_convolve_same_error: "np_convolve_same a v = Inl e \<Longrightarrow> e = ValueError"
  by (auto simp: np_convolve_same_def Let_def split: if_splits)

lemma np_gradient_error: "np_gradient f x = Inl e \<Longrightarrow> e = ValueError \<or> e = IndexError"
  by (auto simp: np_gradient_def Let_def split: if_splits)

lemma np_sub_error: "np_sub xs ys = Inl e \<Longrightarrow> e = ValueError"
  by (auto simp: np_sub_def split: if_splits)

lemma np_select_error: "np_select xs bs = Inl e \<Longrightarrow> e = IndexError"
  by (auto simp: np_select_def split: if_splits)

lemma gradient_pass_error: "gradient_pass w t = Inl e \<Longrightarrow> e = ValueError \<or> e = IndexError"
  unfolding gradient_pass_def smooth_gradient_def Let_def
  by (auto dest: np_gradient_error np_convolve_same_error center_loop_error
           split: sum.splits if_splits)

lemma absorption_bands_error: "absorption_bands_of t = Inl e \<Longrightarrow> e = ValueError"
  unfolding absorption_bands_of_def
  by (auto dest: np_convolve_same_error np_sub_error split: sum.splits)

lemma detect_defects_error: "detect_defects w t = Inl e \<Longrightarrow> e = ValueError \<or> e = IndexError"
  unfolding detect_defects_def
  by (auto dest: gradient_pass_error absorption_bands_error add_unique_error split: sum.splits)

lemma calculate_bandwidth_error: "calculate_bandwidth w t thr = Inl e \<Longrightarrow> e = IndexError"
  unfolding calculate_bandwidth_def Let_def
  by (auto dest: getitem_error split: sum.splits if_splits)

lemma visible_average_error: "visible_average w t = Inl e \<Longrightarrow> e = IndexError"
  unfolding visible_average_def Let_def
  by (auto dest: np_select_error split: sum.splits if_splits)

lemma uniformity_error: "uniformity_of w t = Inl e \<Longrightarrow> e = IndexError"
  unfolding uniformity_of_def Let_def
  by (auto dest: np_select_error split: sum.splits if_splits)

lemma calculate_metrics_error:
  assumes "calculate_metrics self w t sid mat = Inl e"
  shows "e = ValueError \<or> e = IndexError"
proof -
  have mx: "np_max t = Inl e \<Longrightarrow> e = ValueError" by (simp add: np_max_def split: if_splits)
  have am: "np_argmax t = Inl e \<Longrightarrow> e = ValueError" by (simp add: np_argmax_def split: if_splits)
  show ?thesis
    using assms unfolding calculate_metrics_def Let_def
    by (auto dest: mx am getitem_error visible_average_error calculate_bandwidth_error
          uniformity_error detect_defects_error split: sum.splits prod.splits)
qed

text \<open>
  Claim C1, as the specification states it, fails: on empty arrays \<open>calculate_metrics\<close>
  fails with the ValueError of \<^verbatim>\<open>np.max\<close>, and on a wavelength array of two points
  with a transmission array of one point with the IndexError of the boolean index, not
  with \<open>InvalidInput\<close>.
\<close>

theorem calculate_metrics_invalid_input_counterexample:
  "calculate_metrics default_classifier [] [] ''unknown'' ''unknown'' = Inl ValueError \<and>
   calculate_metrics default_classifier [] [] ''unknown'' ''unknown'' \<noteq> Inl InvalidInput \<and>
   calculate_metrics default_classifier [400, 500] [90] ''unknown'' ''unknown'' = Inl IndexError \<and>
   calculate_metrics default_classifier [400, 500] [90] ''unknown'' ''unknown'' \<noteq> Inl InvalidInput"
  by (simp add: calculate_metrics_def np_max_def np_argmax_def getitem_def
      visible_average_def visible_mask_of_def VISIBLE_RANGE_def mask_any_def np_select_def)

text \<open>
  Claim C1, amended. \<open>calculate_metrics\<close> validates nothing and catches nothing: with an
  empty transmission array it fails with the ValueError of \<^verbatim>\<open>np.max\<close>, and with
  arrays of different lengths it fails with a ValueError or an IndexError of numpy.
\<close>

theorem calculate_metrics_raw_errors:
  "(t = [] \<longrightarrow> calculate_metrics self w t sid mat = Inl ValueError) \<and>
   (length w \<noteq> length t \<longrightarrow>
      calculate_metrics self w t sid mat = Inl ValueError \<or>
      calculate_metrics self w t sid mat = Inl IndexError)"
proof (intro conjI impI)
  assume "t = []"
  then show "calculate_metrics self w t sid mat = Inl ValueError"
    by (simp add: calculate_metrics_def np_max_def)
next
  assume ne: "length w \<noteq> length t"
  show "calculate_metrics self w t sid mat = Inl ValueError \<or>
        calculate_metrics self w t sid mat = Inl IndexError"
  proof (cases "calculate_metrics self w t sid mat")
    case (Inl e)
    then show ?thesis using calculate_metrics_error[OF Inl] by auto
  next
    case (Inr m)
    then show ?thesis using calculate_metrics_Inr_length[OF Inr] ne by simp
  qed
qed

theorem calculate_metrics_raw_errors_witness:
  "([] :: real list) = [] \<and>
   calculate_metrics default_classifier [] [] ''unknown'' ''unknown'' = Inl ValueError \<and>
   length [800, 900 :: real] \<noteq> length [10 :: real] \<and>
   (calculate_metrics default_classifier [800, 900] [10] ''unknown'' ''unknown'' = Inl ValueError \<or>
    calculate_metrics default_classifier [800, 900] [10] ''unknown'' ''unknown'' = Inl IndexError)"
proof -
  have ne: "length [800, 900 :: real] \<noteq> length [10 :: real]"
    by simp
  show ?thesis
    using calculate_metrics_raw_errors [where t = "[]" and w = "[]" and self = default_classifier
        and sid = "''unknown''" and mat = "''unknown''", THEN conjunct1, THEN mp, OF refl]
      calculate_metrics_raw_errors [where t = "[10]" and w = "[800, 900]"
        and self = default_classifier and sid = "''unknown''" and mat = "''unknown''",
        THEN conjunct2, THEN mp, OF ne] ne
    by blast
qed

end
